theory Spec2Isabelle
  imports Main "HOL-Library.Word" "HOL-Library.Sublist"
begin

section \<open>Go strings\<close>

text \<open>
  A Go string is a sequence of bytes, here a \<^typ>\<open>string\<close> (one \<^typ>\<open>char\<close> per byte).
  The functions of package \<open>strings\<close> that the adapter calls are written out on bytes.
\<close>

definition nl :: string where
  "nl = [CHR 0x0A]"


definition HasSuffix :: "string \<Rightarrow> string \<Rightarrow> bool" where
  "HasSuffix s p = suffix p s"


text \<open>
  \<open>strings.TrimSpace\<close> removes the leading and the trailing runes that \<open>unicode.IsSpace\<close>
  accepts. Those runes are the six ASCII ones, U+0085, U+00A0, U+1680, U+2000 to U+200A,
  U+2028, U+2029, U+202F, U+205F and U+3000; \<open>spaceRunes\<close> lists their UTF-8 encodings.
  A byte sequence decodes to one of these runes exactly when it is its encoding, so
  trimming runes is stripping these byte sequences.
\<close>

definition spaceRunes :: "string list" where
  "spaceRunes =
     [[CHR 0x09], [CHR 0x0A], [CHR 0x0B], [CHR 0x0C], [CHR 0x0D], [CHR 0x20],
      [CHR 0xC2, CHR 0x85], [CHR 0xC2, CHR 0xA0],
      [CHR 0xE1, CHR 0x9A, CHR 0x80],
      [CHR 0xE2, CHR 0x80, CHR 0x80], [CHR 0xE2, CHR 0x80, CHR 0x81],
      [CHR 0xE2, CHR 0x80, CHR 0x82], [CHR 0xE2, CHR 0x80, CHR 0x83],
      [CHR 0xE2, CHR 0x80, CHR 0x84], [CHR 0xE2, CHR 0x80, CHR 0x85],
      [CHR 0xE2, CHR 0x80, CHR 0x86], [CHR 0xE2, CHR 0x80, CHR 0x87],
      [CHR 0xE2, CHR 0x80, CHR 0x88], [CHR 0xE2, CHR 0x80, CHR 0x89],
      [CHR 0xE2, CHR 0x80, CHR 0x8A],
      [CHR 0xE2, CHR 0x80, CHR 0xA8], [CHR 0xE2, CHR 0x80, CHR 0xA9],
      [CHR 0xE2, CHR 0x80, CHR 0xAF],
      [CHR 0xE2, CHR 0x81, CHR 0x9F],
      [CHR 0xE3, CHR 0x80, CHR 0x80]]"

lemma spaceRunes_nonempty: "t \<in> set spaceRunes \<Longrightarrow> t \<noteq> []"
  by (auto simp: spaceRunes_def)

function TrimLeftSpace :: "string \<Rightarrow> string" where
  "TrimLeftSpace s =
     (case find (\<lambda>t. prefix t s) spaceRunes of
        None \<Rightarrow> s
      | Some t \<Rightarrow> TrimLeftSpace (drop (length t) s))"
  by pat_completeness auto
termination
proof (relation "measure length")
  show "wf (measure length)" by simp
next
  fix s t :: string
  assume "find (\<lambda>t. prefix t s) spaceRunes = Some t"
  then have "t \<in> set spaceRunes" and "prefix t s"
    by (auto simp: find_Some_iff)
  then have "t \<noteq> []" and "length t \<le> length s"
    by (auto simp: spaceRunes_nonempty prefix_length_le)
  then show "(drop (length t) s, s) \<in> measure length"
    by (cases t) auto
qed

function TrimRightSpace :: "string \<Rightarrow> string" where
  "TrimRightSpace s =
     (case find (\<lambda>t. suffix t s) spaceRunes of
        None \<Rightarrow> s
      | Some t \<Rightarrow> TrimRightSpace (take (length s - length t) s))"
  by pat_completeness auto
termination
proof (relation "measure length")
  show "wf (measure length)" by simp
next
  fix s t :: string
  assume "find (\<lambda>t. suffix t s) spaceRunes = Some t"
  then have "t \<in> set spaceRunes" and "suffix t s"
    by (auto simp: find_Some_iff)
  then have "t \<noteq> []" and "length t \<le> length s"
    by (auto simp: spaceRunes_nonempty suffix_length_le)
  then show "(take (length s - length t) s, s) \<in> measure length"
    by (cases t) auto
qed

declare TrimLeftSpace.simps [simp del]
declare TrimRightSpace.simps [simp del]

definition TrimSpace :: "string \<Rightarrow> string" where
  "TrimSpace s = TrimRightSpace (TrimLeftSpace s)"

section \<open>Merging rules, preferences and skill ideas\<close>

text \<open>
  \<open>mergeUnique\<close> keeps a set \<open>seen\<close> and a slice \<open>out\<close>; its closure \<open>push\<close> trims an
  entry, skips it when it is empty or seen, and appends it otherwise. The state of the
  two loops is the pair \<open>(seen, out)\<close>.
\<close>

definition push :: "string \<Rightarrow> string set \<times> string list \<Rightarrow> string set \<times> string list" where
  "push s0 st =
     (let s = TrimSpace s0 in
      if s = [] then st
      else if s \<in> fst st then st
      else (insert s (fst st), snd st @ [s]))"

definition mergeUnique :: "string list \<Rightarrow> string list \<Rightarrow> int \<Rightarrow> string list" where
  "mergeUnique base add limit =
     (let st0 = ({}, []);
          st1 = fold push base st0;
          st2 = fold push add st1;
          out = snd st2
      in if limit > 0 \<and> int (length out) > limit then take (nat limit) out else out)"

definition trimList :: "string list \<Rightarrow> int \<Rightarrow> string list" where
  "trimList inp limit =
     (let out = filter (\<lambda>s. s \<noteq> []) (map TrimSpace inp)
      in if limit > 0 \<and> int (length out) > limit then take (nat limit) out else out)"

section \<open>More of the Go library\<close>


text \<open>\<open>filepath.Base\<close> on a system whose separator is the slash.\<close>

definition Base :: "string \<Rightarrow> string" where
  "Base path =
     (if path = [] then ''.''
      else
        let p = rev (dropWhile (\<lambda>c. c = CHR ''/'') (rev path));
            q = rev (takeWhile (\<lambda>c. c \<noteq> CHR ''/'') (rev p))
        in if q = [] then ''/'' else q)"


text \<open>\<open>strings.IndexByte\<close> and \<open>strings.LastIndexByte\<close>.\<close>

definition IndexByte :: "string \<Rightarrow> char \<Rightarrow> int" where
  "IndexByte s c =
     (if c \<in> set s then int (length (takeWhile (\<lambda>x. x \<noteq> c) s)) else - 1)"

definition LastIndexByte :: "string \<Rightarrow> char \<Rightarrow> int" where
  "LastIndexByte s c =
     (if c \<in> set s
      then int (length s) - 1 - int (length (takeWhile (\<lambda>x. x \<noteq> c) (rev s)))
      else - 1)"

text \<open>The \<open>%d\<close> verb of \<open>fmt.Sprintf\<close> on an integer: a minus sign and decimal digits.\<close>

fun digits :: "nat \<Rightarrow> string" where
  "digits n =
     (if n < 10 then [''0123456789'' ! n]
      else digits (n div 10) @ [''0123456789'' ! (n mod 10)])"

declare digits.simps [simp del]

definition Itoa :: "int \<Rightarrow> string" where
  "Itoa i = (if i < 0 then CHR ''-'' # digits (nat (- i)) else digits (nat i))"

section \<open>The data of the adapter\<close>

datatype EventType = EventStdout | EventStderr | EventExit | EventStatus

record Event =
  evType :: EventType
  evText :: string
  evTime :: nat
  evCode :: int

record codexItem =
  itemType :: string
  itemText :: string

record codexJSON =
  jsonType :: string
  jsonThreadID :: string
  jsonItem :: "codexItem option"

text \<open>Go's \<open>int\<close> on a 64-bit platform: addition wraps, comparison is signed.\<close>

type_synonym goint = "64 word"

text \<open>
  The declaration of \<open>codexUsage\<close> is not among the sources; \<open>onTurnCompleted\<close> reads its
  fields \<open>InputTokens\<close> and \<open>OutputTokens\<close> and adds them to an \<open>int\<close>.
\<close>

record codexUsage =
  InputTokens :: goint
  OutputTokens :: goint

text \<open>A \<open>time.Time\<close> is a reading of the clock, a number; the zero time is \<open>0\<close>.\<close>

record chatMemory =
  Summary :: string
  Rules :: "string list"
  Prefs :: "string list"
  UpdatedAt :: nat
  CompactedAt :: nat
  TokensSinceCompact :: goint
  TurnsSinceCompact :: goint
  SkillIdeas :: "string list"

definition emptyMemory :: chatMemory where
  "emptyMemory =
     \<lparr>Summary = [], Rules = [], Prefs = [], UpdatedAt = 0, CompactedAt = 0,
      TokensSinceCompact = 0, TurnsSinceCompact = 0, SkillIdeas = []\<rparr>"

record compactResult =
  resSummary :: string
  resRules :: "string list"
  resPrefs :: "string list"
  resSkillIdeas :: "string list"

text \<open>
  What a subprocess does is not the adapter's code. A run of one is the record of what the
  adapter observes: whether it could be started, the bytes of its two output streams and
  the error of waiting for it.
\<close>

record procResult =
  startErr :: "string option"
  stdoutText :: string
  stderrText :: string
  exitErr :: "string option"

text \<open>
  The operating system and the libraries the adapter calls, as parameters:
  the environment, the subprocess run for a command line, \<open>bufio.Scanner\<close> (the lines of
  a stream and the scanner's error, if any), \<open>json.Unmarshal\<close> into a \<open>codexJSON\<close>
  (the error text or the record) and into a \<open>compactResult\<close> (whether it succeeded, and
  the record as far as it was filled), \<open>strings.ToLower\<close>, and the package's \<open>envInt\<close>,
  whose source is not among the files.
\<close>

record sys =
  getenv :: "string \<Rightarrow> string"
  envInt :: "string \<Rightarrow> goint \<Rightarrow> goint"
  runProc :: "string \<Rightarrow> string list \<Rightarrow> procResult"
  scanLines :: "string \<Rightarrow> string list \<times> string option"
  unmarshalEvent :: "string \<Rightarrow> string + codexJSON"
  unmarshalCompact :: "string \<Rightarrow> bool \<times> compactResult"
  toLower :: "string \<Rightarrow> string"

text \<open>What the compaction task tells the user through \<open>notify\<close>.\<close>

datatype notice =
  NoticeStart goint goint
| NoticeFailed string
| NoticeDone nat "string list"

text \<open>
  The state the adapter's methods work on: the fields of \<open>Adapter\<close> (a Go map is a partial
  map; \<open>compacting\<close> is a \<open>map[string]bool\<close>, whose missing keys read \<open>false\<close>), and what
  they leave outside it: the two JSON files as the maps last written to them (\<open>None\<close>
  before the first write), the transcripts by log directory and session, the subprocesses
  started, the notices sent and the clock that \<open>time.Now\<close> reads. Writes to disk are taken
  to succeed; the source ignores their errors. The mutexes are not modelled: every method
  runs to its end alone.
\<close>

record world =
  cmd :: string
  args :: "string list"
  logDir :: string
  mode :: string
  skipGitRepoCheck :: bool
  threads :: "string \<rightharpoonup> string"
  mem :: "string \<rightharpoonup> chatMemory"
  compacting :: "string \<Rightarrow> bool"
  stateFile :: "(string \<rightharpoonup> string) option"
  memoryFile :: "(string \<rightharpoonup> chatMemory) option"
  transcript :: "string \<times> string \<Rightarrow> string"
  spawned :: "(string \<times> string list) list"
  notified :: "notice list"
  clock :: nat

text \<open>
  \<open>handleExec\<close>: \<open>hRunning\<close> says whether \<open>running\<close> holds a command, \<open>hAdapter\<close> whether
  \<open>adapter\<close> is set, \<open>hEvents\<close> is the content of the channel, oldest first.
\<close>

record handleExec =
  hSessionID :: string
  hChatKey :: string
  hLogDir :: string
  hCmdPath :: string
  hGlobalArgs :: "string list"
  hSkipGitRepoCheck :: bool
  hThreadID :: string
  hRunning :: bool
  hEvents :: "Event list"
  hAdapter :: bool


section \<open>The thread store\<close>

definition saveStateLocked :: "world \<Rightarrow> world" where
  "saveStateLocked w = w\<lparr>stateFile := Some (threads w)\<rparr>"


definition setThread :: "string \<Rightarrow> string \<Rightarrow> world \<Rightarrow> world" where
  "setThread chatKey threadID w =
     (if chatKey = [] \<or> threadID = [] then w
      else if (case threads w chatKey of None \<Rightarrow> [] | Some t \<Rightarrow> t) = threadID then w
      else saveStateLocked (w\<lparr>threads := (threads w)(chatKey \<mapsto> threadID)\<rparr>))"


text \<open>
  Modelled from the spec: \<open>dropThread\<close>, which \<open>compactChat\<close> calls and whose source is not
  among the files. The spec: after a successful compaction, the persisted continuation
  identifier for the conversation is cleared, forcing the next turn to start a new
  underlying continuation.
\<close>

definition dropThread :: "string \<Rightarrow> world \<Rightarrow> world" where
  "dropThread chatKey w = saveStateLocked (w\<lparr>threads := (threads w)(chatKey := None)\<rparr>)"

section \<open>Session identifiers\<close>


definition NewResumeID :: "int \<Rightarrow> int \<Rightarrow> string" where
  "NewResumeID chatID ts = ''chat-'' @ Itoa chatID @ ''-'' @ Itoa ts"


section \<open>The structured exec handle\<close>

definition appendTranscript :: "handleExec \<Rightarrow> string \<Rightarrow> world \<Rightarrow> world" where
  "appendTranscript h s w =
     w\<lparr>transcript := (transcript w)
          ((hLogDir h, hSessionID h) := transcript w (hLogDir h, hSessionID h) @ s)\<rparr>"

text \<open>
  \<open>emit\<close> is a send that does not block: the event is built, with the time read, and
  enters the channel of capacity 256 if there is room, else it is dropped.
\<close>

definition emit :: "EventType \<Rightarrow> string \<Rightarrow> world \<times> handleExec \<Rightarrow> world \<times> handleExec" where
  "emit typ text s =
     (let w = fst s; h = snd s;
          ev = \<lparr>evType = typ, evText = text, evTime = clock w, evCode = 0\<rparr>;
          w' = w\<lparr>clock := Suc (clock w)\<rparr>
      in if length (hEvents h) < 256 then (w', h\<lparr>hEvents := hEvents h @ [ev]\<rparr>)
         else (w', h))"


text \<open>One pass of the loop of \<open>readJSONL\<close>, on one line of standard output.\<close>

definition readLine :: "sys \<Rightarrow> string \<Rightarrow> world \<times> handleExec \<Rightarrow> world \<times> handleExec" where
  "readLine sy line s =
     (case unmarshalEvent sy line of
        Inl err \<Rightarrow> emit EventStderr (''bad json: '' @ err @ nl) s
      | Inr ev \<Rightarrow>
          (let w = fst s; h = snd s in
           if jsonType ev = ''thread.started'' then
             (if jsonThreadID ev \<noteq> [] then
                (let adopt = (hThreadID h = []);
                     h1 = (if adopt then h\<lparr>hThreadID := jsonThreadID ev\<rparr> else h);
                     toPersist = (if adopt then jsonThreadID ev else []);
                     chatKey = (if adopt then hChatKey h else [])
                 in if toPersist \<noteq> [] \<and> chatKey \<noteq> [] \<and> hAdapter h then
                      (appendTranscript h1 (''[resume thread_id '' @ toPersist @ '']'' @ nl)
                         (setThread chatKey toPersist w), h1)
                    else (w, h1))
              else s)
           else if jsonType ev = ''item.completed'' then
             (case jsonItem ev of
                None \<Rightarrow> s
              | Some it \<Rightarrow>
                  if itemType it = ''agent_message'' \<and> itemText it \<noteq> [] then
                    (let txt = (if HasSuffix (itemText it) nl then itemText it
                                else itemText it @ nl)
                     in emit EventStdout txt (appendTranscript h txt w, h))
                  else s)
           else if jsonType ev = ''turn.completed'' then s
           else s))"

text \<open>
  \<open>readJSONL\<close> on the lines the scanner delivers and the scanner's final error, if it is
  one other than the end of the stream.
\<close>

definition readJSONL ::
  "sys \<Rightarrow> string list \<Rightarrow> string option \<Rightarrow> world \<times> handleExec \<Rightarrow> world \<times> handleExec" where
  "readJSONL sy lines scErr s =
     (let s1 = fold (readLine sy) lines s
      in case scErr of
           None \<Rightarrow> s1
         | Some err \<Rightarrow> emit EventStderr (''jsonl read error: '' @ err @ nl) s1)"

definition Contains :: "string \<Rightarrow> string \<Rightarrow> bool" where
  "Contains s sub = sublist sub s"

definition isNoisyCodexStderr :: "sys \<Rightarrow> string \<Rightarrow> bool" where
  "isNoisyCodexStderr sy line =
     (let s = toLower sy line
      in Contains s ''codex_core::rollout::list'' \<and> Contains s ''missing rollout path'')"

definition readStderrLine :: "sys \<Rightarrow> string \<Rightarrow> world \<times> handleExec \<Rightarrow> world \<times> handleExec" where
  "readStderrLine sy text s =
     (let w = fst s; h = snd s; line = text @ nl
      in if isNoisyCodexStderr sy line
         then (appendTranscript h (''[filtered stderr] '' @ line) w, h)
         else emit EventStderr line (appendTranscript h line w, h))"

definition readStderr :: "sys \<Rightarrow> string list \<Rightarrow> world \<times> handleExec \<Rightarrow> world \<times> handleExec" where
  "readStderr sy lines s = fold (readStderrLine sy) lines s"

text \<open>
  \<open>sendExec\<close> returns its error, \<open>None\<close> for nil. The two readers run as goroutines beside
  the wait; here the reader of standard output runs first and the reader of standard
  error after it, one of the orders in which they can run.
\<close>

definition execArgv :: "handleExec \<Rightarrow> string \<Rightarrow> string list" where
  "execArgv h prompt =
     hGlobalArgs h @ [''exec'']
       @ (if hThreadID h \<noteq> [] then [''resume''] else [])
       @ [''--json'']
       @ (if hSkipGitRepoCheck h then [''--skip-git-repo-check''] else [])
       @ (if hThreadID h \<noteq> [] then [hThreadID h, prompt] else [prompt])"

definition sendExec ::
  "sys \<Rightarrow> string \<Rightarrow> world \<times> handleExec \<Rightarrow> string option \<times> world \<times> handleExec" where
  "sendExec sy input s =
     (let w = fst s; h = snd s; prompt = TrimSpace input in
      if prompt = [] then (None, w, h)
      else
        (let argv = execArgv h prompt;
             r = runProc sy (hCmdPath h) argv
         in case startErr r of
              Some err \<Rightarrow> (Some err, w, h)
            | None \<Rightarrow>
                (let w1 = w\<lparr>spawned := spawned w @ [(hCmdPath h, argv)]\<rparr>;
                     h1 = h\<lparr>hRunning := True\<rparr>;
                     w2 = appendTranscript h1 (nl @ ''> '' @ prompt @ nl) w1;
                     out = scanLines sy (stdoutText r);
                     s3 = readJSONL sy (fst out) (snd out) (w2, h1);
                     s4 = readStderr sy (fst (scanLines sy (stderrText r))) s3
                 in (exitErr r, fst s4, (snd s4)\<lparr>hRunning := False\<rparr>))))"

section \<open>The memory engine\<close>

definition envBool :: "sys \<Rightarrow> string \<Rightarrow> bool \<Rightarrow> bool" where
  "envBool sy key dflt =
     (let v = TrimSpace (getenv sy key) in
      if v = [] then dflt
      else
        (let l = toLower sy v in
         if l \<in> {''1'', ''true'', ''yes'', ''y'', ''on''} then True
         else if l \<in> {''0'', ''false'', ''no'', ''n'', ''off''} then False
         else dflt))"

definition memoryEnabled :: "sys \<Rightarrow> world \<Rightarrow> bool" where
  "memoryEnabled sy w =
     (envBool sy ''MEMORY_ENABLE'' True \<and> Base (cmd w) = ''codex'' \<and> mode w = ''exec'')"

definition memoryTokenThreshold :: "sys \<Rightarrow> goint" where
  "memoryTokenThreshold sy = envInt sy ''MEMORY_TOKEN_THRESHOLD'' 60000"

definition memoryTurnThreshold :: "sys \<Rightarrow> goint" where
  "memoryTurnThreshold sy = envInt sy ''MEMORY_TURN_THRESHOLD'' 40"

definition saveMemoryLocked :: "world \<Rightarrow> world" where
  "saveMemoryLocked w = w\<lparr>memoryFile := Some (mem w)\<rparr>"

text \<open>
  \<open>getMem\<close> returns a pointer to the conversation's memory, which it creates when there
  is none, or nil for the empty key: here the memory itself (\<open>None\<close> for nil) and the
  state with the entry in place. What the caller writes through the pointer is written
  to the entry.
\<close>

definition getMem :: "string \<Rightarrow> world \<Rightarrow> chatMemory option \<times> world" where
  "getMem chatKey w =
     (if chatKey = [] then (None, w)
      else
        (case mem w chatKey of
           None \<Rightarrow> (Some emptyMemory, w\<lparr>mem := (mem w)(chatKey \<mapsto> emptyMemory)\<rparr>)
         | Some m \<Rightarrow> (Some m, w)))"

text \<open>
  \<open>onTurnCompleted\<close> up to the point where it starts the compaction task: the state it
  leaves, and the counters handed to the task when it starts one (\<open>None\<close> when it starts
  none).
\<close>

definition onTurnCompleted ::
  "sys \<Rightarrow> string \<Rightarrow> string \<Rightarrow> codexUsage \<Rightarrow> world \<Rightarrow> world \<times> (goint \<times> goint) option" where
  "onTurnCompleted sy chatKey threadID usage w =
     (if \<not> memoryEnabled sy w \<or> chatKey = [] then (w, None)
      else
        (case getMem chatKey w of
           (None, w1) \<Rightarrow> (w1, None)
         | (Some m, w1) \<Rightarrow>
             (let m' = m\<lparr>TurnsSinceCompact := TurnsSinceCompact m + 1,
                          TokensSinceCompact :=
                            TokensSinceCompact m + (InputTokens usage + OutputTokens usage),
                          UpdatedAt := clock w1\<rparr>;
                  need = (memoryTokenThreshold sy \<le>s TokensSinceCompact m'
                          \<or> memoryTurnThreshold sy \<le>s TurnsSinceCompact m');
                  tokensNow = TokensSinceCompact m';
                  turnsNow = TurnsSinceCompact m';
                  w2 = saveMemoryLocked
                         (w1\<lparr>mem := (mem w1)(chatKey \<mapsto> m'), clock := Suc (clock w1)\<rparr>)
              in if \<not> need \<or> threadID = [] then (w2, None)
                 else if compacting w2 chatKey then (w2, None)
                 else (w2\<lparr>compacting := (compacting w2)(chatKey := True)\<rparr>,
                       Some (tokensNow, turnsNow)))))"

text \<open>The last agent message among the lines of the compaction run.\<close>

definition lastAgentMessage :: "sys \<Rightarrow> string list \<Rightarrow> string" where
  "lastAgentMessage sy lines =
     fold (\<lambda>line last.
             case unmarshalEvent sy line of
               Inl err \<Rightarrow> last
             | Inr ev \<Rightarrow>
                 (case jsonItem ev of
                    None \<Rightarrow> last
                  | Some it \<Rightarrow>
                      if jsonType ev = ''item.completed'' \<and> itemType it = ''agent_message''
                      then itemText it else last))
          lines []"

definition runCodexResumeJSON ::
  "sys \<Rightarrow> string \<Rightarrow> string \<Rightarrow> world \<Rightarrow> (string + string) \<times> world" where
  "runCodexResumeJSON sy threadID prompt w =
     (if threadID = [] then (Inl ''empty threadID'', w)
      else
        (let argv = args w @ [''exec'', ''resume'', ''--json'']
                      @ (if skipGitRepoCheck w then [''--skip-git-repo-check''] else [])
                      @ [threadID, prompt];
             r = runProc sy (cmd w) argv;
             failed = (\<lambda>err. ''compact run failed: '' @ err @ '': ''
                               @ TrimSpace (stderrText r))
         in case startErr r of
              Some err \<Rightarrow> (Inl (failed err), w)
            | None \<Rightarrow>
                (let w1 = w\<lparr>spawned := spawned w @ [(cmd w, argv)]\<rparr>
                 in case exitErr r of
                      Some err \<Rightarrow> (Inl (failed err), w1)
                    | None \<Rightarrow>
                        (let last = lastAgentMessage sy (fst (scanLines sy (stdoutText r)))
                         in if TrimSpace last = [] then (Inr (stdoutText r), w1)
                            else (Inr last, w1)))))"

definition extractJSON :: "string \<Rightarrow> string" where
  "extractJSON s0 =
     (let s = TrimSpace s0 in
      if s = [] then s
      else
        (let i = IndexByte s (CHR ''{''); j = LastIndexByte s (CHR ''}'')
         in if i \<ge> 0 \<and> j > i then take (nat (j + 1 - i)) (drop (nat i) s) else s))"

text \<open>
  \<open>compactChat\<close> returns its error, \<open>None\<close> for nil. The instruction it sends is a fixed
  text of the source; it is the argument \<open>prompt\<close> here.
\<close>

definition compactChat ::
  "sys \<Rightarrow> string \<Rightarrow> string \<Rightarrow> string \<Rightarrow> world \<Rightarrow> string option \<times> world" where
  "compactChat sy prompt chatKey threadID w =
     (case runCodexResumeJSON sy threadID prompt w of
        (Inl err, w1) \<Rightarrow> (Some err, w1)
      | (Inr text, w1) \<Rightarrow>
          (let parsed = unmarshalCompact sy (extractJSON text);
               res = (if fst parsed then snd parsed
                      else (snd parsed)\<lparr>resSummary := TrimSpace text\<rparr>);
               m = (case mem w1 chatKey of None \<Rightarrow> emptyMemory | Some m0 \<Rightarrow> m0);
               m' = m\<lparr>Summary := TrimSpace (resSummary res),
                       Rules := mergeUnique (Rules m) (resRules res) 20,
                       Prefs := mergeUnique (Prefs m) (resPrefs res) 20,
                       SkillIdeas := trimList (resSkillIdeas res) 5,
                       CompactedAt := clock w1,
                       UpdatedAt := Suc (clock w1),
                       TokensSinceCompact := 0,
                       TurnsSinceCompact := 0\<rparr>;
               w2 = saveMemoryLocked
                      (w1\<lparr>mem := (mem w1)(chatKey \<mapsto> m'), clock := Suc (Suc (clock w1))\<rparr>)
           in (None, dropThread chatKey w2)))"

text \<open>
  The task \<open>onTurnCompleted\<close> starts: it tells the user, compacts, tells the user how it
  went, and clears the conversation's flag when it ends. \<open>notify\<close> says whether the
  callback is set.
\<close>

definition compactionTask ::
  "sys \<Rightarrow> string \<Rightarrow> string \<Rightarrow> string \<Rightarrow> bool \<Rightarrow> goint \<times> goint \<Rightarrow> world \<Rightarrow> world" where
  "compactionTask sy prompt chatKey threadID notify now w =
     (let tell = (\<lambda>n v. if notify then v\<lparr>notified := notified v @ [n]\<rparr> else v);
          w1 = tell (NoticeStart (fst now) (snd now)) w;
          r = compactChat sy prompt chatKey threadID w1;
          w3 = (case fst r of
                  Some err \<Rightarrow> tell (NoticeFailed err) (snd r)
                | None \<Rightarrow>
                    if notify then
                      (case getMem chatKey (snd r) of
                         (None, v) \<Rightarrow> tell (NoticeDone 0 []) v
                       | (Some m, v) \<Rightarrow> tell (NoticeDone (length (Rules m)) (SkillIdeas m)) v)
                    else snd r)
      in w3\<lparr>compacting := (compacting w3)(chatKey := False)\<rparr>)"

section \<open>The reader of the interactive handle\<close>








section \<open>Notions used in the statements\<close>

text \<open>
  The entries as the merge sees them: trimmed, the empty ones left out.
\<close>

definition trimmedEntries :: "string list \<Rightarrow> string list" where
  "trimmedEntries xs = filter (\<lambda>s. s \<noteq> []) (map TrimSpace xs)"

text \<open>A list without the later occurrences of its elements.\<close>

definition firstOccurrences :: "'a list \<Rightarrow> 'a list" where
  "firstOccurrences xs = rev (remdups (rev xs))"

definition truncateTo :: "int \<Rightarrow> 'a list \<Rightarrow> 'a list" where
  "truncateTo limit xs =
     (if limit > 0 \<and> int (length xs) > limit then take (nat limit) xs else xs)"

definition appendNew :: "'a \<Rightarrow> 'a list \<Rightarrow> 'a list" where
  "appendNew s out = (if s \<in> set out then out else out @ [s])"

text \<open>The memory of a conversation, empty when it has none.\<close>

definition memOf :: "world \<Rightarrow> string \<Rightarrow> chatMemory" where
  "memOf w chatKey = (case mem w chatKey of None \<Rightarrow> emptyMemory | Some m \<Rightarrow> m)"

text \<open>The memory of a conversation after one more turn with the given usage is counted.\<close>

definition turnCounted :: "world \<Rightarrow> string \<Rightarrow> codexUsage \<Rightarrow> chatMemory" where
  "turnCounted w chatKey usage =
     (memOf w chatKey)
       \<lparr>TurnsSinceCompact := TurnsSinceCompact (memOf w chatKey) + 1,
        TokensSinceCompact := TokensSinceCompact (memOf w chatKey)
           + (InputTokens usage + OutputTokens usage),
        UpdatedAt := clock w\<rparr>"

text \<open>A counter has reached its threshold.\<close>

definition thresholdReached :: "sys \<Rightarrow> chatMemory \<Rightarrow> bool" where
  "thresholdReached sy m =
     (memoryTokenThreshold sy \<le>s TokensSinceCompact m
      \<or> memoryTurnThreshold sy \<le>s TurnsSinceCompact m)"

text \<open>A compaction is due: a threshold is reached, there is a thread, none is running.\<close>

definition compactionDue :: "sys \<Rightarrow> string \<Rightarrow> string \<Rightarrow> codexUsage \<Rightarrow> world \<Rightarrow> bool" where
  "compactionDue sy chatKey threadID usage w =
     (thresholdReached sy (turnCounted w chatKey usage) \<and> threadID \<noteq> []
      \<and> \<not> compacting w chatKey)"

text \<open>
  The non-empty thread identifiers of the \<open>thread.started\<close> records among the lines, in
  the order of the lines.
\<close>

definition startedIDs :: "sys \<Rightarrow> string list \<Rightarrow> string list" where
  "startedIDs sy lines =
     concat (map (\<lambda>l. case unmarshalEvent sy l of
                          Inl err \<Rightarrow> []
                        | Inr ev \<Rightarrow>
                            if jsonType ev = ''thread.started'' \<and> jsonThreadID ev \<noteq> []
                            then [jsonThreadID ev] else [])
                 lines)"




section \<open>A system and a state to run the model on\<close>

definition lineThread1 :: string where
  \<open>lineThread1 = ''{"type":"thread.started","thread_id":"T1"}''\<close>

definition lineThread2 :: string where
  \<open>lineThread2 = ''{"type":"thread.started","thread_id":"T2"}''\<close>

definition lineHello :: string where
  \<open>lineHello = ''{"type":"item.completed","item":{"type":"agent_message","text":"hello"}}''\<close>

definition lineTurn :: string where
  \<open>lineTurn = ''{"type":"turn.completed","usage":{"input_tokens":100,"output_tokens":50}}''\<close>

definition decodeExample :: "string \<Rightarrow> string + codexJSON" where
  "decodeExample l =
     (if l = lineThread1 then
        Inr \<lparr>jsonType = ''thread.started'', jsonThreadID = ''T1'', jsonItem = None\<rparr>
      else if l = lineThread2 then
        Inr \<lparr>jsonType = ''thread.started'', jsonThreadID = ''T2'', jsonItem = None\<rparr>
      else if l = lineHello then
        Inr \<lparr>jsonType = ''item.completed'', jsonThreadID = [],
             jsonItem = Some \<lparr>itemType = ''agent_message'', itemText = ''hello''\<rparr>\<rparr>
      else if l = lineTurn then
        Inr \<lparr>jsonType = ''turn.completed'', jsonThreadID = [], jsonItem = None\<rparr>
      else Inl ''invalid character'')"

definition resExample :: compactResult where
  "resExample =
     \<lparr>resSummary = ''done so far'', resRules = [''b'', ''c''], resPrefs = [''short''],
      resSkillIdeas = [''news'', '' '', ''mail'']\<rparr>"

definition procExample :: "string \<Rightarrow> string list \<Rightarrow> procResult" where
  "procExample c argv =
     \<lparr>startErr = None, stdoutText = lineHello, stderrText = [], exitErr = None\<rparr>"


definition sysExample :: sys where
  "sysExample =
     \<lparr>getenv = (\<lambda>k. []), envInt = (\<lambda>k d. d), runProc = procExample,
      scanLines = (\<lambda>s. ([s], None)), unmarshalEvent = decodeExample,
      unmarshalCompact = (\<lambda>s. (True, resExample)), toLower = id\<rparr>"

definition memExample :: chatMemory where
  "memExample = emptyMemory\<lparr>Rules := [''a'', ''b''], SkillIdeas := [''old idea''],
                             TokensSinceCompact := 300, TurnsSinceCompact := 2\<rparr>"

definition worldExample :: world where
  "worldExample =
     \<lparr>cmd = ''codex'', args = [], logDir = ''logs'', mode = ''exec'',
      skipGitRepoCheck = True, threads = [''7'' \<mapsto> ''T0''], mem = [''7'' \<mapsto> memExample],
      compacting = (\<lambda>k. False), stateFile = None, memoryFile = None,
      transcript = (\<lambda>k. []), spawned = [], notified = [], clock = 0\<rparr>"

definition handleExample :: handleExec where
  "handleExample =
     \<lparr>hSessionID = ''chat-7-1'', hChatKey = ''7'', hLogDir = ''logs'', hCmdPath = ''codex'',
      hGlobalArgs = [], hSkipGitRepoCheck = True, hThreadID = [], hRunning = False,
      hEvents = [], hAdapter = True\<rparr>"

definition eventBusy :: Event where
  "eventBusy = \<lparr>evType = EventStderr, evText = ''warning'' @ nl, evTime = 0, evCode = 0\<rparr>"

definition usageExample :: codexUsage where
  "usageExample = \<lparr>InputTokens = 100, OutputTokens = 50\<rparr>"

definition sys200 :: sys where
  "sys200 = sysExample\<lparr>envInt :=
     (\<lambda>k d. if k = ''MEMORY_TOKEN_THRESHOLD'' then 200 else d)\<rparr>"

definition worldFresh :: world where
  "worldFresh = worldExample\<lparr>mem := Map.empty\<rparr>"

definition turn1 :: "world \<times> (goint \<times> goint) option" where
  "turn1 = onTurnCompleted sys200 ''7'' ''T1'' usageExample worldFresh"

definition turn2 :: "world \<times> (goint \<times> goint) option" where
  "turn2 = onTurnCompleted sys200 ''7'' ''T1'' usageExample (fst turn1)"

definition turn3 :: "world \<times> (goint \<times> goint) option" where
  "turn3 = onTurnCompleted sys200 ''7'' ''T1'' usageExample (fst turn2)"

definition worldNoThread :: world where
  "worldNoThread = worldExample\<lparr>threads := Map.empty\<rparr>"

definition handleResumed :: handleExec where
  "handleResumed = handleExample\<lparr>hThreadID := ''T0''\<rparr>"



section \<open>The merge\<close>

lemma fold_push_appendNew:
  "fold push xs (set out, out) =
     (set (fold appendNew (trimmedEntries xs) out), fold appendNew (trimmedEntries xs) out)"
proof (induction xs arbitrary: out)
  case Nil
  show ?case by (simp add: trimmedEntries_def)
next
  case (Cons x xs)
  show ?case
  proof (cases "TrimSpace x = [] \<or> TrimSpace x \<in> set out")
    case True
    then have "push x (set out, out) = (set out, out)"
      by (auto simp: push_def Let_def)
    moreover from True
    have "fold appendNew (trimmedEntries (x # xs)) out = fold appendNew (trimmedEntries xs) out"
      by (auto simp: trimmedEntries_def appendNew_def)
    ultimately show ?thesis using Cons.IH [of out] by simp
  next
    case False
    then have "push x (set out, out) = (set (out @ [TrimSpace x]), out @ [TrimSpace x])"
      by (auto simp: push_def Let_def)
    moreover from False
    have "fold appendNew (trimmedEntries (x # xs)) out
            = fold appendNew (trimmedEntries xs) (out @ [TrimSpace x])"
      by (auto simp: trimmedEntries_def appendNew_def)
    ultimately show ?thesis using Cons.IH [of "out @ [TrimSpace x]"] by simp
  qed
qed

lemma firstOccurrences_snoc:
  "firstOccurrences (xs @ [y]) = appendNew y (firstOccurrences xs)"
  by (simp add: firstOccurrences_def appendNew_def)

lemma fold_appendNew: "fold appendNew ys [] = firstOccurrences ys"
proof (induction ys rule: rev_induct)
  case Nil
  show ?case by (simp add: firstOccurrences_def)
next
  case (snoc y ys)
  then show ?case by (simp add: firstOccurrences_snoc)
qed

lemma mergeUnique_eq:
  "mergeUnique base add limit =
     truncateTo limit (firstOccurrences (trimmedEntries (base @ add)))"
proof -
  have "fold push add (fold push base ({}, [])) = fold push (base @ add) (set [], [])"
    by simp
  also have "\<dots> = (set (firstOccurrences (trimmedEntries (base @ add))),
                    firstOccurrences (trimmedEntries (base @ add)))"
    by (simp only: fold_push_appendNew fold_appendNew)
  finally show ?thesis
    by (simp add: mergeUnique_def truncateTo_def Let_def)
qed

lemma trimList_eq: "trimList inp limit = truncateTo limit (trimmedEntries inp)"
  by (simp add: trimList_def truncateTo_def trimmedEntries_def Let_def)

lemma distinct_truncateTo: "distinct xs \<Longrightarrow> distinct (truncateTo limit xs)"
  by (simp add: truncateTo_def)

lemma length_truncateTo: "0 < limit \<Longrightarrow> int (length (truncateTo limit xs)) \<le> limit"
  by (auto simp: truncateTo_def)

lemma compactChat_ok:
  assumes "runCodexResumeJSON sy threadID prompt w = (Inr text, w1)"
  shows "fst (compactChat sy prompt chatKey threadID w) = None"
    and "threads (snd (compactChat sy prompt chatKey threadID w)) = (threads w1)(chatKey := None)"
    and "stateFile (snd (compactChat sy prompt chatKey threadID w)) = Some ((threads w1)(chatKey := None))"
    and "memoryFile (snd (compactChat sy prompt chatKey threadID w)) = Some (mem (snd (compactChat sy prompt chatKey threadID w)))"
    and "mem (snd (compactChat sy prompt chatKey threadID w)) =
           (mem w1)(chatKey \<mapsto>
             (case mem w1 chatKey of None \<Rightarrow> emptyMemory | Some m0 \<Rightarrow> m0)
               \<lparr>Summary := TrimSpace (if fst (unmarshalCompact sy (extractJSON text))
                                        then resSummary (snd (unmarshalCompact sy (extractJSON text)))
                                        else TrimSpace text),
                Rules := mergeUnique (Rules (case mem w1 chatKey of None \<Rightarrow> emptyMemory | Some m0 \<Rightarrow> m0))
                           (resRules (snd (unmarshalCompact sy (extractJSON text)))) 20,
                Prefs := mergeUnique (Prefs (case mem w1 chatKey of None \<Rightarrow> emptyMemory | Some m0 \<Rightarrow> m0))
                           (resPrefs (snd (unmarshalCompact sy (extractJSON text)))) 20,
                SkillIdeas := trimList (resSkillIdeas (snd (unmarshalCompact sy (extractJSON text)))) 5,
                CompactedAt := clock w1,
                UpdatedAt := Suc (clock w1),
                TokensSinceCompact := 0,
                TurnsSinceCompact := 0\<rparr>)"
  using assms
  by (simp_all add: compactChat_def dropThread_def saveMemoryLocked_def saveStateLocked_def Let_def)

lemma TrimSpace_hello: "TrimSpace ''hello'' = ''hello''"
  by code_simp

lemma merge_ab_bc: "mergeUnique [''a'', ''b''] [''b'', ''c''] 20 = [''a'', ''b'', ''c'']"
  by code_simp

lemma run_example:
  "runCodexResumeJSON sysExample ''T0'' ''compact'' worldExample =
     (Inr ''hello'',
      worldExample\<lparr>spawned := [(''codex'',
        [''exec'', ''resume'', ''--json'', ''--skip-git-repo-check'', ''T0'', ''compact''])]\<rparr>)"
  by (simp add: runCodexResumeJSON_def sysExample_def worldExample_def procExample_def
      lastAgentMessage_def decodeExample_def lineHello_def lineThread1_def lineThread2_def
      TrimSpace_hello Let_def)

text \<open>
  C6 (amended). The merge used by compaction trims every entry and leaves out the ones that
  are empty then; on the trimmed entries of the existing list followed by those of the new
  one it keeps the first occurrence of each string, in order, and truncates to the cap.
  Rules \<open>a, b\<close> merged with \<open>b, c\<close> under cap 20 are \<open>a, b, c\<close>. A successful compaction
  stores the rules and the preferences merged so under cap 20, and as skill ideas the new
  ones alone, trimmed, the empty ones left out, truncated to 5.
\<close>

theorem compaction_merge_trimmed_unique_capped:
  assumes "runCodexResumeJSON sy threadID prompt w = (Inr text, w1)"
    and "unmarshalCompact sy (extractJSON text) = (ok, res)"
    and "m = (case mem w1 chatKey of None \<Rightarrow> emptyMemory | Some m0 \<Rightarrow> m0)"
  shows "mergeUnique base add limit
           = truncateTo limit (firstOccurrences (trimmedEntries (base @ add)))
       \<and> distinct (mergeUnique base add limit)
       \<and> mergeUnique [''a'', ''b''] [''b'', ''c''] 20 = [''a'', ''b'', ''c'']
       \<and> (\<exists>m'. mem (snd (compactChat sy prompt chatKey threadID w)) chatKey = Some m'
              \<and> Rules m' = mergeUnique (Rules m) (resRules res) 20
              \<and> Prefs m' = mergeUnique (Prefs m) (resPrefs res) 20
              \<and> SkillIdeas m' = truncateTo 5 (trimmedEntries (resSkillIdeas res)))"
proof -
  have "distinct (mergeUnique base add limit)"
    by (simp add: mergeUnique_eq distinct_truncateTo firstOccurrences_def)
  moreover have "\<exists>m'. mem (snd (compactChat sy prompt chatKey threadID w)) chatKey = Some m'
              \<and> Rules m' = mergeUnique (Rules m) (resRules res) 20
              \<and> Prefs m' = mergeUnique (Prefs m) (resPrefs res) 20
              \<and> SkillIdeas m' = truncateTo 5 (trimmedEntries (resSkillIdeas res))"
    using assms(2,3) by (simp add: compactChat_ok(5) [OF assms(1)] trimList_eq)
  ultimately show ?thesis
    using mergeUnique_eq merge_ab_bc by simp
qed

theorem compaction_merge_witness:
  "\<exists>m'. mem (snd (compactChat sysExample ''compact'' ''7'' ''T0'' worldExample)) ''7'' = Some m'
      \<and> Rules m' = [''a'', ''b'', ''c'']
      \<and> SkillIdeas m' = [''news'', ''mail'']"
proof -
  have i: "truncateTo 5 (trimmedEntries [''news'', '' '', ''mail'']) = [''news'', ''mail'']"
    by code_simp
  have m: "memExample = (case mem (worldExample\<lparr>spawned := [(''codex'',
        [''exec'', ''resume'', ''--json'', ''--skip-git-repo-check'', ''T0'', ''compact''])]\<rparr>) ''7''
      of None \<Rightarrow> emptyMemory | Some m0 \<Rightarrow> m0)"
    by (simp add: worldExample_def)
  have p: "unmarshalCompact sysExample (extractJSON ''hello'') = (True, resExample)"
    by (simp add: sysExample_def)
  show ?thesis
    using compaction_merge_trimmed_unique_capped [OF run_example p m, of "[]" "[]" 20]
    by (auto simp: memExample_def resExample_def merge_ab_bc i)
qed

theorem merge_exact_string_counterexample:
  "mergeUnique [''a''] ['' a''] 20 = [''a'']
   \<and> truncateTo 20 (firstOccurrences ([''a''] @ ['' a''])) = [''a'', '' a'']"
  by code_simp

section \<open>The reader of standard output\<close>

lemma TrimSpace_blank: "TrimSpace ('' '' @ nl) = []"
  by code_simp

lemma TrimSpace_empty: "TrimSpace [] = []"
  by code_simp

lemma Base_codex: "Base ''codex'' = ''codex''"
  by code_simp

lemma memoryEnabled_example: "memoryEnabled sysExample worldExample"
  by (simp add: memoryEnabled_def envBool_def sysExample_def worldExample_def TrimSpace_empty
      Base_codex)

text \<open>
  C10. A call of \<open>Send\<close> on a structured exec handle whose input trims to the empty string
  returns nil at once: the state and the handle are as they were, so no subprocess is
  started, no event is emitted, and the transcript, the thread state and the memory are
  untouched.
\<close>

theorem sendExec_blank_input_does_nothing:
  assumes "TrimSpace input = []"
  shows "sendExec sy input (w, h) = (None, w, h)"
  using assms by (simp add: sendExec_def)

theorem sendExec_blank_input_witness:
  "sendExec sysExample ('' '' @ nl) (worldExample, handleExample)
     = (None, worldExample, handleExample)"
  using sendExec_blank_input_does_nothing [OF TrimSpace_blank] .

lemma readJSONL_single: "readJSONL sy [line] None s = readLine sy line s"
  by (simp add: readJSONL_def)

text \<open>
  C2 (amended). A line of standard output that parses as an \<open>item.completed\<close> record whose
  item is an agent message with non-empty text has that text, with a newline appended if
  it ends in none, appended to the transcript. It yields exactly one event, with that text,
  when the channel holds fewer than 256 events; when the channel is full the event is
  dropped and the channel stays as it was.
\<close>

theorem agent_message_one_event_unless_full:
  assumes "unmarshalEvent sy line = Inr ev"
    and "jsonType ev = ''item.completed''"
    and "jsonItem ev = Some it"
    and "itemType it = ''agent_message''"
    and "itemText it \<noteq> []"
    and "txt = (if HasSuffix (itemText it) nl then itemText it else itemText it @ nl)"
    and "r = readJSONL sy [line] None (w, h)"
  shows "transcript (fst r) (hLogDir h, hSessionID h)
           = transcript w (hLogDir h, hSessionID h) @ txt
       \<and> (length (hEvents h) < 256 \<longrightarrow>
            hEvents (snd r) = hEvents h @
              [\<lparr>evType = EventStdout, evText = txt, evTime = clock w, evCode = 0\<rparr>])
       \<and> (256 \<le> length (hEvents h) \<longrightarrow> hEvents (snd r) = hEvents h)"
  using assms
  by (simp add: readJSONL_single readLine_def emit_def appendTranscript_def Let_def)

lemma decode_hello:
  "unmarshalEvent sysExample lineHello =
     Inr \<lparr>jsonType = ''item.completed'', jsonThreadID = [],
          jsonItem = Some \<lparr>itemType = ''agent_message'', itemText = ''hello''\<rparr>\<rparr>"
  by (simp add: sysExample_def decodeExample_def lineHello_def lineThread1_def lineThread2_def)

lemma hello_no_newline: "\<not> HasSuffix ''hello'' nl"
  by (simp add: HasSuffix_def nl_def suffix_def)

theorem agent_message_witness:
  "hEvents (snd (readJSONL sysExample [lineHello] None (worldExample, handleExample)))
     = [\<lparr>evType = EventStdout, evText = ''hello'' @ nl, evTime = 0, evCode = 0\<rparr>]
   \<and> hEvents (snd (readJSONL sysExample [lineHello] None
         (worldExample, handleExample\<lparr>hEvents := replicate 256 eventBusy\<rparr>)))
     = replicate 256 eventBusy"
proof -
  have t: "''hello'' @ nl = (if HasSuffix (itemText \<lparr>itemType = ''agent_message'', itemText = ''hello''\<rparr>) nl
        then itemText \<lparr>itemType = ''agent_message'', itemText = ''hello''\<rparr>
        else itemText \<lparr>itemType = ''agent_message'', itemText = ''hello''\<rparr> @ nl)"
    by (simp add: hello_no_newline)
  show ?thesis
    using agent_message_one_event_unless_full [OF decode_hello _ _ _ _ t refl, of worldExample handleExample]
      agent_message_one_event_unless_full [OF decode_hello _ _ _ _ t refl, of worldExample
          "handleExample\<lparr>hEvents := replicate 256 eventBusy\<rparr>"]
    by (simp add: handleExample_def worldExample_def)
qed

theorem agent_message_dropped_counterexample:
  "hEvents (snd (readJSONL sysExample [lineHello] None
       (worldExample, handleExample\<lparr>hEvents := replicate 256 eventBusy\<rparr>)))
     = replicate 256 eventBusy
   \<and> evText eventBusy \<noteq> ''hello'' @ nl"
  by (simp add: readJSONL_single readLine_def decode_hello emit_def appendTranscript_def
      Let_def handleExample_def eventBusy_def hello_no_newline nl_def)

section \<open>The first thread identifier\<close>

lemma startedIDs_Cons: "startedIDs sy (l # ls) = startedIDs sy [l] @ startedIDs sy ls"
  by (simp add: startedIDs_def)

lemma startedIDs_single:
  "startedIDs sy [l] = [] \<or> (\<exists>t. t \<noteq> [] \<and> startedIDs sy [l] = [t])"
  by (auto simp: startedIDs_def split: sum.splits)

lemma emit_store:
  "threads (fst (emit typ text s)) = threads (fst s)"
  "stateFile (fst (emit typ text s)) = stateFile (fst s)"
  "hThreadID (snd (emit typ text s)) = hThreadID (snd s)"
  "hChatKey (snd (emit typ text s)) = hChatKey (snd s)"
  "hAdapter (snd (emit typ text s)) = hAdapter (snd s)"
  by (simp_all add: emit_def Let_def)

lemma setThread_threads:
  "chatKey \<noteq> [] \<Longrightarrow> t \<noteq> [] \<Longrightarrow> threads (setThread chatKey t w) = (threads w)(chatKey \<mapsto> t)"
  by (auto simp: setThread_def saveStateLocked_def split: option.splits)

lemma setThread_stateFile:
  "chatKey \<noteq> [] \<Longrightarrow> t \<noteq> [] \<Longrightarrow>
     stateFile (setThread chatKey t w)
       = (if threads w chatKey = Some t then stateFile w else Some ((threads w)(chatKey \<mapsto> t)))"
  by (auto simp: setThread_def saveStateLocked_def split: option.splits)

lemma readLine_handle_fields:
  "hChatKey (snd (readLine sy l s)) = hChatKey (snd s)"
  "hAdapter (snd (readLine sy l s)) = hAdapter (snd s)"
  by (auto simp: readLine_def emit_def Let_def split: sum.splits option.splits)

lemma readLine_keeps:
  assumes "hThreadID (snd s) \<noteq> [] \<or> startedIDs sy [l] = []"
  shows "hThreadID (snd (readLine sy l s)) = hThreadID (snd s)"
    and "threads (fst (readLine sy l s)) = threads (fst s)"
    and "stateFile (fst (readLine sy l s)) = stateFile (fst s)"
  using assms
  by (auto simp: readLine_def emit_def appendTranscript_def startedIDs_def Let_def
      split: sum.splits option.splits if_splits)

lemma readLine_adopts:
  assumes "hThreadID (snd s) = []" and "startedIDs sy [l] = [t]"
  shows "hThreadID (snd (readLine sy l s)) = t"
    and "threads (fst (readLine sy l s))
           = (if hChatKey (snd s) \<noteq> [] \<and> hAdapter (snd s)
              then (threads (fst s))(hChatKey (snd s) \<mapsto> t) else threads (fst s))"
    and "stateFile (fst (readLine sy l s))
           = (if hChatKey (snd s) \<noteq> [] \<and> hAdapter (snd s)
                 \<and> threads (fst s) (hChatKey (snd s)) \<noteq> Some t
              then Some ((threads (fst s))(hChatKey (snd s) \<mapsto> t)) else stateFile (fst s))"
  using assms
  by (auto simp: readLine_def appendTranscript_def startedIDs_def Let_def
      setThread_threads setThread_stateFile
      split: sum.splits option.splits if_splits)

lemma fold_readLine_keeps:
  assumes "hThreadID (snd s) \<noteq> [] \<or> startedIDs sy ls = []"
  shows "hThreadID (snd (fold (readLine sy) ls s)) = hThreadID (snd s)
       \<and> threads (fst (fold (readLine sy) ls s)) = threads (fst s)
       \<and> stateFile (fst (fold (readLine sy) ls s)) = stateFile (fst s)"
  using assms
proof (induction ls arbitrary: s)
  case Nil
  show ?case by simp
next
  case (Cons l ls)
  from Cons.prems have here: "hThreadID (snd s) \<noteq> [] \<or> startedIDs sy [l] = []"
    by (auto simp: startedIDs_Cons [of sy l ls])
  from Cons.prems
  have later: "hThreadID (snd (readLine sy l s)) \<noteq> [] \<or> startedIDs sy ls = []"
    by (auto simp: startedIDs_Cons [of sy l ls] readLine_keeps(1) [OF here])
  show ?case
    using Cons.IH [OF later] readLine_keeps [OF here] by simp
qed

lemma fold_readLine_adopts:
  assumes "hThreadID (snd s) = []" and "startedIDs sy ls = t # rest"
  shows "hThreadID (snd (fold (readLine sy) ls s)) = t
       \<and> threads (fst (fold (readLine sy) ls s))
           = (if hChatKey (snd s) \<noteq> [] \<and> hAdapter (snd s)
              then (threads (fst s))(hChatKey (snd s) \<mapsto> t) else threads (fst s))
       \<and> stateFile (fst (fold (readLine sy) ls s))
           = (if hChatKey (snd s) \<noteq> [] \<and> hAdapter (snd s)
                 \<and> threads (fst s) (hChatKey (snd s)) \<noteq> Some t
              then Some ((threads (fst s))(hChatKey (snd s) \<mapsto> t)) else stateFile (fst s))"
  using assms
proof (induction ls arbitrary: s)
  case Nil
  then show ?case by (simp add: startedIDs_def)
next
  case (Cons l ls)
  show ?case
  proof (cases "startedIDs sy [l]")
    case Nil
    then have ids: "startedIDs sy ls = t # rest"
      using Cons.prems(2) by (simp add: startedIDs_Cons [of sy l ls])
    have keep: "hThreadID (snd s) \<noteq> [] \<or> startedIDs sy [l] = []"
      using Nil by simp
    have empty: "hThreadID (snd (readLine sy l s)) = []"
      using readLine_keeps(1) [OF keep] Cons.prems(1) by simp
    show ?thesis
      using Cons.IH [OF empty ids] readLine_keeps [OF keep]
      by (simp add: readLine_handle_fields)
  next
    case (Cons u us)
    with startedIDs_single [of sy l] have one: "startedIDs sy [l] = [u]" and "u \<noteq> []"
      by auto
    with Cons.prems(2) have "u = t"
      by (simp add: startedIDs_Cons [of sy l ls])
    with one have one: "startedIDs sy [l] = [t]" by simp
    have keep: "hThreadID (snd (readLine sy l s)) \<noteq> [] \<or> startedIDs sy ls = []"
      using readLine_adopts(1) [OF Cons.prems(1) one] \<open>u \<noteq> []\<close> \<open>u = t\<close> by simp
    show ?thesis
      using fold_readLine_keeps [OF keep] readLine_adopts [OF Cons.prems(1) one]
      by simp
  qed
qed

lemma readJSONL_store:
  "hThreadID (snd (readJSONL sy ls scErr s)) = hThreadID (snd (fold (readLine sy) ls s))"
  "threads (fst (readJSONL sy ls scErr s)) = threads (fst (fold (readLine sy) ls s))"
  "stateFile (fst (readJSONL sy ls scErr s)) = stateFile (fst (fold (readLine sy) ls s))"
  by (simp_all add: readJSONL_def emit_store Let_def split: option.splits)

text \<open>
  C3 (amended). A structured exec handle that holds no thread identifier adopts the first
  non-empty \<open>thread_id\<close> of a \<open>thread.started\<close> record among the lines and no later one; when
  its chat key is not empty it stores that identifier in the thread store under the key
  and writes the state file. So for lines with \<open>thread.started\<close> \<open>T1\<close> followed by
  \<open>thread.started\<close> \<open>T2\<close> its identifier and the stored one are \<open>T1\<close>. A handle that
  already holds an identifier, having resumed it at start, keeps it: it adopts none and
  stores none.
\<close>

theorem first_thread_id_adopted_once:
  "(hThreadID h = [] \<and> startedIDs sy lines = T1 # rest \<longrightarrow>
      hThreadID (snd (readJSONL sy lines scErr (w, h))) = T1
      \<and> threads (fst (readJSONL sy lines scErr (w, h)))
           = (if hChatKey h \<noteq> [] \<and> hAdapter h then (threads w)(hChatKey h \<mapsto> T1)
              else threads w)
      \<and> stateFile (fst (readJSONL sy lines scErr (w, h)))
           = (if hChatKey h \<noteq> [] \<and> hAdapter h \<and> threads w (hChatKey h) \<noteq> Some T1
              then Some ((threads w)(hChatKey h \<mapsto> T1)) else stateFile w))
   \<and> (hThreadID h \<noteq> [] \<longrightarrow>
      hThreadID (snd (readJSONL sy lines scErr (w, h))) = hThreadID h
      \<and> threads (fst (readJSONL sy lines scErr (w, h))) = threads w
      \<and> stateFile (fst (readJSONL sy lines scErr (w, h))) = stateFile w)"
proof (intro conjI impI)
  assume a: "hThreadID h = [] \<and> startedIDs sy lines = T1 # rest"
  then have e: "hThreadID (snd (w, h)) = []" and i: "startedIDs sy lines = T1 # rest"
    by simp_all
  note f = fold_readLine_adopts [OF e i]
  show "hThreadID (snd (readJSONL sy lines scErr (w, h))) = T1"
    using f by (simp add: readJSONL_store)
  show "threads (fst (readJSONL sy lines scErr (w, h)))
          = (if hChatKey h \<noteq> [] \<and> hAdapter h then (threads w)(hChatKey h \<mapsto> T1)
             else threads w)"
    using f by (simp add: readJSONL_store)
  show "stateFile (fst (readJSONL sy lines scErr (w, h)))
          = (if hChatKey h \<noteq> [] \<and> hAdapter h \<and> threads w (hChatKey h) \<noteq> Some T1
             then Some ((threads w)(hChatKey h \<mapsto> T1)) else stateFile w)"
    using f by (simp add: readJSONL_store)
next
  assume "hThreadID h \<noteq> []"
  then have k: "hThreadID (snd (w, h)) \<noteq> [] \<or> startedIDs sy lines = []"
    by simp
  note f = fold_readLine_keeps [OF k]
  show "hThreadID (snd (readJSONL sy lines scErr (w, h))) = hThreadID h"
    using f by (simp add: readJSONL_store)
  show "threads (fst (readJSONL sy lines scErr (w, h))) = threads w"
    using f by (simp add: readJSONL_store)
  show "stateFile (fst (readJSONL sy lines scErr (w, h))) = stateFile w"
    using f by (simp add: readJSONL_store)
qed

lemma decode_threads:
  "unmarshalEvent sysExample lineThread1 =
     Inr \<lparr>jsonType = ''thread.started'', jsonThreadID = ''T1'', jsonItem = None\<rparr>"
  "unmarshalEvent sysExample lineThread2 =
     Inr \<lparr>jsonType = ''thread.started'', jsonThreadID = ''T2'', jsonItem = None\<rparr>"
  by (simp_all add: sysExample_def decodeExample_def lineThread1_def lineThread2_def)

lemma startedIDs_example: "startedIDs sysExample [lineThread1, lineThread2] = [''T1'', ''T2'']"
  by (simp add: startedIDs_def decode_threads)

theorem first_thread_id_witness:
  "hThreadID (snd (readJSONL sysExample [lineThread1, lineThread2] None
       (worldNoThread, handleExample))) = ''T1''
   \<and> threads (fst (readJSONL sysExample [lineThread1, lineThread2] None
       (worldNoThread, handleExample))) = [''7'' \<mapsto> ''T1'']
   \<and> stateFile (fst (readJSONL sysExample [lineThread1, lineThread2] None
       (worldNoThread, handleExample))) = Some [''7'' \<mapsto> ''T1'']
   \<and> hThreadID (snd (readJSONL sysExample [lineThread1, lineThread2] None
       (worldExample, handleResumed))) = ''T0''
   \<and> threads (fst (readJSONL sysExample [lineThread1, lineThread2] None
       (worldExample, handleResumed))) = [''7'' \<mapsto> ''T0'']"
  using first_thread_id_adopted_once [of handleExample sysExample
      "[lineThread1, lineThread2]" "''T1''" "[''T2'']" None worldNoThread]
    first_thread_id_adopted_once [of handleResumed sysExample
      "[lineThread1, lineThread2]" "''T1''" "[''T2'']" None worldExample]
  by (simp add: startedIDs_example handleExample_def handleResumed_def worldNoThread_def
      worldExample_def)

theorem resumed_handle_keeps_id_counterexample:
  "hThreadID (snd (readJSONL sysExample [lineThread1, lineThread2] None
       (worldExample, handleResumed))) = ''T0''
   \<and> threads (fst (readJSONL sysExample [lineThread1, lineThread2] None
       (worldExample, handleResumed))) ''7'' = Some ''T0''"
  by (simp add: readJSONL_def readLine_def decode_threads handleResumed_def handleExample_def
      worldExample_def Let_def)

section \<open>Counting turns\<close>

lemma onTurnCompleted_off:
  "\<not> memoryEnabled sy w \<or> chatKey = [] \<Longrightarrow> onTurnCompleted sy chatKey threadID usage w = (w, None)"
  by (auto simp: onTurnCompleted_def)

lemma onTurnCompleted_on:
  assumes "memoryEnabled sy w" and "chatKey \<noteq> []"
  shows "onTurnCompleted sy chatKey threadID usage w =
     (if thresholdReached sy (turnCounted w chatKey usage) \<and> threadID \<noteq> []
         \<and> \<not> compacting w chatKey
      then (w\<lparr>mem := (mem w)(chatKey \<mapsto> turnCounted w chatKey usage),
              clock := Suc (clock w),
              memoryFile := Some ((mem w)(chatKey \<mapsto> turnCounted w chatKey usage)),
              compacting := (compacting w)(chatKey := True)\<rparr>,
            Some (TokensSinceCompact (turnCounted w chatKey usage),
                  TurnsSinceCompact (turnCounted w chatKey usage)))
      else (w\<lparr>mem := (mem w)(chatKey \<mapsto> turnCounted w chatKey usage),
              clock := Suc (clock w),
              memoryFile := Some ((mem w)(chatKey \<mapsto> turnCounted w chatKey usage))\<rparr>,
            None))"
  using assms
  by (cases "mem w chatKey")
     (auto simp: onTurnCompleted_def getMem_def memOf_def turnCounted_def
        thresholdReached_def saveMemoryLocked_def Let_def)


text \<open>
  C1 (amended). The reader of the structured exec handle ignores a line that parses as a
  \<open>turn.completed\<close> record: the state and the handle stay as they were, so the hook of the
  memory engine is not invoked and nothing is counted. The hook itself, \<open>onTurnCompleted\<close>,
  when the memory is enabled and the chat key is not empty, adds the usage's input and
  output tokens to the conversation's token counter and one to its turn counter, and
  writes the memory file.
\<close>

theorem turn_completed_ignored_and_hook_counts:
  assumes "unmarshalEvent sy line = Inr ev"
    and "jsonType ev = ''turn.completed''"
    and "memoryEnabled sy w"
    and "chatKey \<noteq> []"
    and "w' = fst (onTurnCompleted sy chatKey threadID usage w)"
  shows "readJSONL sy [line] None (w, h) = (w, h)
       \<and> (\<exists>m'. mem w' chatKey = Some m'
              \<and> TokensSinceCompact m' = TokensSinceCompact (memOf w chatKey)
                   + (InputTokens usage + OutputTokens usage)
              \<and> TurnsSinceCompact m' = TurnsSinceCompact (memOf w chatKey) + 1)
       \<and> memoryFile w' = Some (mem w')"
proof -
  have "readJSONL sy [line] None (w, h) = (w, h)"
    using assms(1,2) by (simp add: readJSONL_single readLine_def)
  moreover have "mem w' chatKey = Some (turnCounted w chatKey usage)"
    and "memoryFile w' = Some (mem w')"
    using assms(5) by (simp_all add: onTurnCompleted_on [OF assms(3,4)])
  ultimately show ?thesis
    by (simp add: turnCounted_def)
qed

lemma decode_turn:
  "unmarshalEvent sysExample lineTurn =
     Inr \<lparr>jsonType = ''turn.completed'', jsonThreadID = [], jsonItem = None\<rparr>"
  by (simp add: sysExample_def decodeExample_def lineTurn_def lineHello_def lineThread1_def
      lineThread2_def)

theorem turn_completed_witness:
  "readJSONL sysExample [lineTurn] None (worldExample, handleExample)
     = (worldExample, handleExample)
   \<and> (\<exists>m'. mem (fst (onTurnCompleted sysExample ''7'' ''T1'' usageExample worldExample)) ''7''
             = Some m'
          \<and> TokensSinceCompact m' = 450 \<and> TurnsSinceCompact m' = 3)"
  using turn_completed_ignored_and_hook_counts
    [OF decode_turn _ memoryEnabled_example _ refl,
      where chatKey = "''7''" and threadID = "''T1''" and usage = usageExample
        and h = handleExample]
  by (simp add: memOf_def worldExample_def memExample_def usageExample_def)

theorem turn_completed_not_counted_counterexample:
  "TokensSinceCompact (memOf worldExample ''7'') = 300
   \<and> TurnsSinceCompact (memOf worldExample ''7'') = 2
   \<and> TokensSinceCompact
        (memOf (fst (readJSONL sysExample [lineTurn] None (worldExample, handleExample))) ''7'')
       = 300
   \<and> TurnsSinceCompact
        (memOf (fst (readJSONL sysExample [lineTurn] None (worldExample, handleExample))) ''7'')
       = 2"
  by (simp add: readJSONL_single readLine_def decode_turn memOf_def worldExample_def
      memExample_def)

lemma memoryEnabled_sys200: "memoryEnabled sys200 w = (Base (cmd w) = ''codex'' \<and> mode w = ''exec'')"
  by (simp add: memoryEnabled_def envBool_def sys200_def sysExample_def TrimSpace_empty)

lemma thresholds_sys200: "memoryTokenThreshold sys200 = 200" "memoryTurnThreshold sys200 = 40"
  by (simp_all add: memoryTokenThreshold_def memoryTurnThreshold_def sys200_def sysExample_def)

lemma onTurnCompleted_fields:
  assumes "memoryEnabled sy w" and "chatKey \<noteq> []"
    and "r = onTurnCompleted sy chatKey threadID usage w"
  shows "cmd (fst r) = cmd w" and "mode (fst r) = mode w"
    and "mem (fst r) chatKey = Some (turnCounted w chatKey usage)"
    and "memoryFile (fst r) = Some (mem (fst r))"
    and "clock (fst r) = Suc (clock w)"
    and "compacting (fst r) chatKey
           = (compacting w chatKey \<or> compactionDue sy chatKey threadID usage w)"
    and "snd r = (if compactionDue sy chatKey threadID usage w
                  then Some (TokensSinceCompact (turnCounted w chatKey usage),
                             TurnsSinceCompact (turnCounted w chatKey usage))
                  else None)"
  using assms(3) by (auto simp: onTurnCompleted_on [OF assms(1,2)] compactionDue_def)

lemma turn1_fields:
  "memoryEnabled sys200 (fst turn1)"
  "memOf (fst turn1) ''7'' = emptyMemory\<lparr>TurnsSinceCompact := 1, TokensSinceCompact := 150\<rparr>"
  "clock (fst turn1) = 1"
  "\<not> compacting (fst turn1) ''7''"
  "snd turn1 = None"
proof -
  have en: "memoryEnabled sys200 worldFresh"
    by (simp add: memoryEnabled_sys200 worldFresh_def worldExample_def Base_codex)
  have counted: "turnCounted worldFresh ''7'' usageExample
      = emptyMemory\<lparr>TurnsSinceCompact := 1, TokensSinceCompact := 150\<rparr>"
    by (simp add: turnCounted_def memOf_def worldFresh_def worldExample_def usageExample_def
        emptyMemory_def)
  have due: "\<not> compactionDue sys200 ''7'' ''T1'' usageExample worldFresh"
    by (simp add: compactionDue_def counted thresholdReached_def thresholds_sys200
        emptyMemory_def word_sle_eq)
  note f = onTurnCompleted_fields [OF en _ turn1_def]
  show "memoryEnabled sys200 (fst turn1)"
    using en by (simp add: memoryEnabled_sys200 f(1,2))
  show "memOf (fst turn1) ''7'' = emptyMemory\<lparr>TurnsSinceCompact := 1, TokensSinceCompact := 150\<rparr>"
    by (simp add: memOf_def f(3) counted)
  show "clock (fst turn1) = 1"
    by (simp add: f(5) worldFresh_def worldExample_def)
  have "\<not> compacting worldFresh ''7''"
    by (simp add: worldFresh_def worldExample_def)
  then show "\<not> compacting (fst turn1) ''7''"
    by (simp add: f(6) due)
  show "snd turn1 = None"
    by (simp add: f(7) due)
qed

lemma turn2_fields:
  "memoryEnabled sys200 (fst turn2)"
  "memOf (fst turn2) ''7''
     = emptyMemory\<lparr>TurnsSinceCompact := 2, TokensSinceCompact := 300, UpdatedAt := 1\<rparr>"
  "compacting (fst turn2) ''7''"
  "snd turn2 = Some (300, 2)"
proof -
  note en = turn1_fields(1)
  have counted: "turnCounted (fst turn1) ''7'' usageExample
      = emptyMemory\<lparr>TurnsSinceCompact := 2, TokensSinceCompact := 300, UpdatedAt := 1\<rparr>"
    by (simp add: turnCounted_def turn1_fields usageExample_def emptyMemory_def)
  have due: "compactionDue sys200 ''7'' ''T1'' usageExample (fst turn1)"
    by (simp add: compactionDue_def counted thresholdReached_def thresholds_sys200
        emptyMemory_def word_sle_eq turn1_fields)
  note f = onTurnCompleted_fields [OF en _ turn2_def]
  show "memoryEnabled sys200 (fst turn2)"
    using en by (simp add: memoryEnabled_sys200 f(1,2))
  show "memOf (fst turn2) ''7''
     = emptyMemory\<lparr>TurnsSinceCompact := 2, TokensSinceCompact := 300, UpdatedAt := 1\<rparr>"
    by (simp add: memOf_def f(3) counted)
  show "compacting (fst turn2) ''7''"
    by (simp add: f(6) due)
  show "snd turn2 = Some (300, 2)"
    by (simp add: f(7) due counted emptyMemory_def)
qed

lemma turn3_fields:
  "TokensSinceCompact (memOf (fst turn3) ''7'') = 450"
  "TurnsSinceCompact (memOf (fst turn3) ''7'') = 3"
  "snd turn3 = None"
proof -
  note en = turn2_fields(1)
  have due: "\<not> compactionDue sys200 ''7'' ''T1'' usageExample (fst turn2)"
    by (simp add: compactionDue_def turn2_fields)
  note f = onTurnCompleted_fields [OF en _ turn3_def]
  have m: "memOf (fst turn3) ''7'' = turnCounted (fst turn2) ''7'' usageExample"
    by (simp add: memOf_def f(3))
  show "TokensSinceCompact (memOf (fst turn3) ''7'') = 450"
    by (simp add: m turnCounted_def turn2_fields usageExample_def emptyMemory_def)
  show "TurnsSinceCompact (memOf (fst turn3) ''7'') = 3"
    by (simp add: m turnCounted_def turn2_fields usageExample_def emptyMemory_def)
  show "snd turn3 = None"
    by (simp add: f(7) due)
qed

text \<open>
  C5 (amended). \<open>onTurnCompleted\<close> adds the turn's input plus output tokens to the token
  counter and one to the turn counter. It starts a compaction exactly when the memory is
  enabled, the chat key and the thread identifier are not empty, the token counter has
  reached the token threshold or the turn counter the turn threshold, and no compaction of
  the conversation is running. The thresholds are what \<open>envInt\<close> makes of the environment
  with the defaults 60000 and 40. With token threshold 200 and the counters at 0, a turn of
  100 input and 50 output tokens starts none; the next such turn, at 300 tokens, starts
  one; the third, at 450 tokens while that one is running, starts none.
\<close>

theorem compaction_triggered_iff:
  "(snd (onTurnCompleted sy chatKey threadID usage w) \<noteq> None)
     = (memoryEnabled sy w \<and> chatKey \<noteq> []
        \<and> (memoryTokenThreshold sy \<le>s TokensSinceCompact (turnCounted w chatKey usage)
           \<or> memoryTurnThreshold sy \<le>s TurnsSinceCompact (turnCounted w chatKey usage))
        \<and> threadID \<noteq> [] \<and> \<not> compacting w chatKey)
   \<and> TokensSinceCompact (turnCounted w chatKey usage)
        = TokensSinceCompact (memOf w chatKey) + (InputTokens usage + OutputTokens usage)
   \<and> (memoryEnabled sy w \<and> chatKey \<noteq> [] \<longrightarrow>
        mem (fst (onTurnCompleted sy chatKey threadID usage w)) chatKey
          = Some (turnCounted w chatKey usage))
   \<and> memoryTokenThreshold sy = envInt sy ''MEMORY_TOKEN_THRESHOLD'' 60000
   \<and> memoryTurnThreshold sy = envInt sy ''MEMORY_TURN_THRESHOLD'' 40
   \<and> snd turn1 = None \<and> snd turn2 = Some (300, 2) \<and> snd turn3 = None
   \<and> TokensSinceCompact (memOf (fst turn3) ''7'') = 450"
proof (cases "memoryEnabled sy w \<and> chatKey \<noteq> []")
  case True
  then have en: "memoryEnabled sy w" and key: "chatKey \<noteq> []" by simp_all
  show ?thesis
    using True onTurnCompleted_fields(3,7) [OF en key refl, of threadID usage]
    by (simp add: compactionDue_def thresholdReached_def turnCounted_def
        memoryTokenThreshold_def memoryTurnThreshold_def turn1_fields turn2_fields turn3_fields)
next
  case False
  then have "onTurnCompleted sy chatKey threadID usage w = (w, None)"
    by (auto simp: onTurnCompleted_off)
  with False show ?thesis
    by (auto simp: turnCounted_def memoryTokenThreshold_def memoryTurnThreshold_def
        turn1_fields turn2_fields turn3_fields)
qed

theorem compaction_triggered_witness:
  "snd (onTurnCompleted sys200 ''7'' ''T1'' usageExample (fst turn1)) \<noteq> None
   \<and> mem (fst (onTurnCompleted sys200 ''7'' ''T1'' usageExample (fst turn1))) ''7''
       = Some (emptyMemory\<lparr>TurnsSinceCompact := 2, TokensSinceCompact := 300, UpdatedAt := 1\<rparr>)"
proof -
  have counted: "turnCounted (fst turn1) ''7'' usageExample
      = emptyMemory\<lparr>TurnsSinceCompact := 2, TokensSinceCompact := 300, UpdatedAt := 1\<rparr>"
    by (simp add: turnCounted_def turn1_fields usageExample_def emptyMemory_def)
  show ?thesis
    using compaction_triggered_iff [of sys200 "''7''" "''T1''" usageExample "fst turn1"]
    by (simp add: counted turn1_fields thresholds_sys200 emptyMemory_def word_sle_eq)
qed

theorem compaction_not_triggered_counterexample:
  "memoryTokenThreshold sys200
     \<le>s TokensSinceCompact
          (memOf (fst (onTurnCompleted sys200 ''7'' [] usageExample (fst turn1))) ''7'')
   \<and> snd (onTurnCompleted sys200 ''7'' [] usageExample (fst turn1)) = None"
proof -
  have counted: "turnCounted (fst turn1) ''7'' usageExample
      = emptyMemory\<lparr>TurnsSinceCompact := 2, TokensSinceCompact := 300, UpdatedAt := 1\<rparr>"
    by (simp add: turnCounted_def turn1_fields usageExample_def emptyMemory_def)
  note f = onTurnCompleted_fields [OF turn1_fields(1) _ refl, of "''7''" "[]" usageExample]
  show ?thesis
    by (simp add: memOf_def f(3) f(7) counted compactionDue_def thresholds_sys200
        emptyMemory_def word_sle_eq)
qed

section \<open>Compaction\<close>







section \<open>Fresh sessions\<close>




















section \<open>Cursor-position queries\<close>
















end
